theory Spec2Isabelle
  imports Complex_Main "HOL-Library.Word"
begin

section \<open>cprogress.h: data model\<close>

text \<open>
  The library is a single C header. Its structs become records, its enums datatypes.
  \<^item> \<open>size_t\<close> is a 64-bit word (the library targets Linux/POSIX, LP64).
    \<open>CPROGRESS_UNDEF\<close> is \<open>-1\<close>; stored in a \<open>size_t\<close> it is the all-ones word. The one
    \<open>int\<close> the source does arithmetic on that can overflow, \<open>token.number\<close>, is a 32-bit
    word read as two's complement; an \<open>int\<close> that is only a small index or count (a
    thread index, the number of tasks alive) is a HOL integer.
  \<^item> C flags (\<open>int\<close> fields that only ever hold 0 or 1 and are only tested for truth) are
    \<open>bool\<close>.
  \<^item> A \<open>const char *\<close> argument is a \<open>string option\<close>: \<open>None\<close> is \<open>NULL\<close>, and the C
    string a \<open>Some s\<close> denotes ends at the first NUL of \<open>s\<close> (\<open>c_str\<close>).
  \<^item> A \<open>float\<close> is the rational number it denotes. Comparisons are exact; NaN and the
    infinities have no counterpart. Where the source computes in \<open>double\<close>, the rounding
    of every operation is written out (\<open>double_round\<close>).
  \<^item> Pointers to structs are the records themselves, so the \<open>if (!p) return\<close> guards of
    the source have no counterpart.
\<close>

type_synonym size_t = "64 word"
type_synonym c_int = "32 word"

definition CPROGRESS_UNDEF :: size_t where
  "CPROGRESS_UNDEF = - 1"

definition CPROGRESS_DISPLAYCHUNK_MAXLEN :: size_t where
  "CPROGRESS_DISPLAYCHUNK_MAXLEN = 16"

definition c_str :: "string \<Rightarrow> string" where
  "c_str s = takeWhile (\<lambda>c. c \<noteq> CHR 0x00) s"

definition strlen :: "string \<Rightarrow> size_t" where
  "strlen s = of_nat (length (c_str s))"

datatype cprogress_error_t =
    CPROGRESS_ERROR_OK
  | CPROGRESS_ERROR_INVAL
  | CPROGRESS_ERROR_BUFFUL
  | CPROGRESS_ERROR_INTERNAL

datatype cprogress_displaychunk_type_t =
    CPROGRESS_DISPLAYCHUNK_UNKNOWN
  | CPROGRESS_DISPLAYCHUNK_LITERAL
  | CPROGRESS_DISPLAYCHUNK_TITLE
  | CPROGRESS_DISPLAYCHUNK_BAR
  | CPROGRESS_DISPLAYCHUNK_PERCENTAGE

text \<open>
  \<open>fill_char\<close> and \<open>literal\<close> share a union in the source; a chunk only ever reads the
  member its type wrote, so they are two fields here. \<open>literal\<close> points into the string
  arena: it is the offset of the text in the arena's buffer, or \<open>None\<close> for \<open>NULL\<close>.
\<close>

record cprogress_displaychunk_t =
  chunk_type :: cprogress_displaychunk_type_t
  fill_char :: char
  literal :: "nat option"
  literal_length :: size_t
  is_autospan :: bool
  span_width :: size_t
  display_width :: size_t

record cprogress_threadinfo_t =
  is_valid :: bool
  thread_index :: int
  is_running :: bool
  title :: "string option"
  percentage :: rat
  is_just_stopped :: bool

datatype cprogress_event_type_t =
    CPROGRESS_EVENT_NONE
  | CPROGRESS_EVENT_THREADSTART
  | CPROGRESS_EVENT_THREADFINISH
  | CPROGRESS_EVENT_FINISH
  | CPROGRESS_EVENT_LENGTH

text \<open>
  The arena: \<open>buffer\<close> holds the bytes of the malloc'ed block (\<open>None\<close> when malloc
  returned \<open>NULL\<close>), \<open>alloc_length\<close> and \<open>alloc_size\<close> are the fields \<open>length\<close> and
  \<open>size\<close> of the source.
\<close>

record cprogress_stralloc_t =
  buffer :: "string option"
  alloc_length :: size_t
  alloc_size :: size_t

text \<open>
  The session. \<open>displaychunks\<close> is the written prefix of the chunk array (entries
  \<open>0 ..< displaychunks_length\<close>), \<open>threadinfos\<close> the task array with its closing
  invalid entry. \<open>subscribers\<close> tells which callback slots are set. A callback is
  opaque: \<open>emitted\<close> records, in order, each call the library makes to one.
  \<open>session_running\<close> is the field \<open>is_running\<close> of \<open>cprogress_t\<close>.
\<close>

record cprogress_t =
  error :: cprogress_error_t
  has_autospan_element :: bool
  displaychunks_length :: size_t
  displaychunks :: "cprogress_displaychunk_t list"
  stralloc :: cprogress_stralloc_t
  session_running :: bool
  last_alive_thread_count :: int
  threadinfos_length :: size_t
  threadinfos :: "cprogress_threadinfo_t list"
  subscribers :: "cprogress_event_type_t \<Rightarrow> bool"
  emitted :: "(cprogress_event_type_t \<times> int) list"


section \<open>String arena\<close>

text \<open>
  \<open>cprogress_stralloc_create(size)\<close>. The argument \<open>block\<close> is what malloc returns:
  \<open>None\<close> for failure, \<open>Some g\<close> for a block whose (uninitialised) byte at offset \<open>i\<close>
  is \<open>g i\<close>.
\<close>

definition cprogress_stralloc_create :: "(nat \<Rightarrow> char) option \<Rightarrow> size_t \<Rightarrow> cprogress_stralloc_t" where
  "cprogress_stralloc_create block sz =
     \<lparr> buffer = map_option (\<lambda>g. map g [0 ..< unat sz]) block,
       alloc_length = 0,
       alloc_size = (if block \<noteq> None then sz else 0) \<rparr>"

text \<open>\<open>strncpy(dest, str, len)\<close>: the first \<open>len\<close> characters of \<open>str\<close>, NUL-padded.\<close>

definition strncpy :: "string \<Rightarrow> nat \<Rightarrow> string" where
  "strncpy str len = take len (c_str str @ replicate len (CHR 0x00))"

definition cprogress_stralloc_alloc ::
  "cprogress_stralloc_t \<Rightarrow> string \<Rightarrow> size_t \<Rightarrow> nat option \<times> cprogress_stralloc_t" where
  "cprogress_stralloc_alloc sa str len =
     (case buffer sa of
        None \<Rightarrow> (None, sa)
      | Some b \<Rightarrow>
          let actual_length = len + 1 in
          if alloc_length sa + actual_length \<ge> alloc_size sa then (None, sa)
          else
            let dest = unat (alloc_length sa);
                b' = take dest b @ strncpy str (unat len) @ drop (dest + unat len) b
            in (Some dest, sa\<lparr> buffer := Some b', alloc_length := alloc_length sa + actual_length \<rparr>))"


section \<open>Format tokenizer\<close>

datatype cprogress_token_type_t =
    CPROGRESS_TOKEN_UNKNOWN
  | CPROGRESS_TOKEN_FMTBEGIN
  | CPROGRESS_TOKEN_MARKAUTOSPAN
  | CPROGRESS_TOKEN_NUMBER
  | CPROGRESS_TOKEN_LITERAL_CHAR

text \<open>
  \<open>read_length\<close> counts characters of a string that is in memory and is only used to
  advance a pointer into it: it is a \<open>nat\<close>.
\<close>

record cprogress_token_t =
  token_type :: cprogress_token_type_t
  number :: c_int
  ch :: char
  read_length :: nat

definition cprogress_isfmtbegin :: "char \<Rightarrow> bool" where
  "cprogress_isfmtbegin c = (c = CHR ''$'')"

definition cprogress_ismarkautospan :: "char \<Rightarrow> bool" where
  "cprogress_ismarkautospan c = (c = CHR ''='')"

definition cprogress_isnumber :: "char \<Rightarrow> bool" where
  "cprogress_isnumber c = ((48::nat) \<le> of_char c \<and> of_char c \<le> (57::nat))"

definition cprogress_isliteral :: "char \<Rightarrow> bool" where
  "cprogress_isliteral c =
     ((97::nat) \<le> of_char c \<and> of_char c \<le> (122::nat) \<or> (65::nat) \<le> of_char c \<and> of_char c \<le> (90::nat))"

definition cprogress_findchartokentype :: "char \<Rightarrow> cprogress_token_type_t" where
  "cprogress_findchartokentype c =
     (if cprogress_isfmtbegin c then CPROGRESS_TOKEN_FMTBEGIN
      else if cprogress_ismarkautospan c then CPROGRESS_TOKEN_MARKAUTOSPAN
      else if cprogress_isnumber c then CPROGRESS_TOKEN_NUMBER
      else if cprogress_isliteral c then CPROGRESS_TOKEN_LITERAL_CHAR
      else CPROGRESS_TOKEN_UNKNOWN)"

text \<open>
  The loop of \<open>cprogress_peektoken\<close> over the characters of the string, with the token
  built so far. \<open>token.number\<close> is an \<open>int\<close>: a digit run too long for it overflows,
  which C leaves undefined and which wraps here.
\<close>

fun peektoken_loop :: "cprogress_token_t \<Rightarrow> string \<Rightarrow> cprogress_token_t" where
  "peektoken_loop token [] = token"
| "peektoken_loop token (c # cs) =
     (let char_token_type = cprogress_findchartokentype c in
      if token_type token \<noteq> CPROGRESS_TOKEN_UNKNOWN \<and> char_token_type \<noteq> token_type token then token
      else
        let token = (if token_type token = CPROGRESS_TOKEN_UNKNOWN
                     then token\<lparr> token_type := char_token_type \<rparr> else token)
        in case token_type token of
             CPROGRESS_TOKEN_UNKNOWN \<Rightarrow> token
           | CPROGRESS_TOKEN_NUMBER \<Rightarrow>
               peektoken_loop
                 (token\<lparr> number := number token * 10 + (of_nat (of_char c) - 48),
                         read_length := read_length token + 1 \<rparr>) cs
           | _ \<Rightarrow> token\<lparr> ch := c, read_length := read_length token + 1 \<rparr>)"

definition cprogress_peektoken :: "string \<Rightarrow> cprogress_token_t" where
  "cprogress_peektoken str =
     peektoken_loop \<lparr> token_type = CPROGRESS_TOKEN_UNKNOWN, number = 0, ch = CHR 0x00, read_length = 0 \<rparr> str"


section \<open>Compiling a format: cprogress_create\<close>

text \<open>\<open>cprogress_pushchunk\<close>: the flag is the \<open>int\<close> it returns (true: the array is full).\<close>

definition cprogress_pushchunk :: "cprogress_t \<Rightarrow> cprogress_displaychunk_t \<Rightarrow> bool \<times> cprogress_t" where
  "cprogress_pushchunk cp displaychunk =
     (if displaychunks_length cp \<ge> CPROGRESS_DISPLAYCHUNK_MAXLEN - 1 then (True, cp)
      else (False, cp\<lparr> displaychunks := displaychunks cp @ [displaychunk],
                       displaychunks_length := displaychunks_length cp + 1 \<rparr>))"

text \<open>The zero-initialised chunk of a designated initialiser, and the ones the source builds.\<close>

definition zero_displaychunk :: cprogress_displaychunk_t where
  "zero_displaychunk =
     \<lparr> chunk_type = CPROGRESS_DISPLAYCHUNK_UNKNOWN, fill_char = CHR 0x00, literal = None,
       literal_length = 0, is_autospan = False, span_width = 0, display_width = 0 \<rparr>"

definition literal_displaychunk :: "nat option \<Rightarrow> size_t \<Rightarrow> cprogress_displaychunk_t" where
  "literal_displaychunk lit len =
     zero_displaychunk\<lparr> chunk_type := CPROGRESS_DISPLAYCHUNK_LITERAL, literal := lit,
                        literal_length := len, span_width := CPROGRESS_UNDEF \<rparr>"

text \<open>
  The inner loop \<open>while (*chptr && !fmt_name)\<close> of a directive: \<open>chptr\<close> is the rest of
  the format from the pointer on. \<open>Inl\<close> is an early \<open>_cprogress_create_returnerror\<close>.
\<close>

function create_directive ::
  "cprogress_t \<Rightarrow> cprogress_displaychunk_t \<Rightarrow> char \<Rightarrow> string \<Rightarrow>
   cprogress_error_t + (cprogress_t \<times> cprogress_displaychunk_t \<times> char \<times> string)" where
  "create_directive cp displaychunk fmt_name chptr =
     (if chptr \<noteq> [] \<and> fmt_name = CHR 0x00 then
        let token = cprogress_peektoken chptr in
        if token_type token = CPROGRESS_TOKEN_MARKAUTOSPAN then
          (if has_autospan_element cp then Inl CPROGRESS_ERROR_INVAL
           else create_directive (cp\<lparr> has_autospan_element := True \<rparr>)
                  (displaychunk\<lparr> is_autospan := True \<rparr>) fmt_name (drop (read_length token) chptr))
        else if token_type token = CPROGRESS_TOKEN_NUMBER then
          create_directive cp (displaychunk\<lparr> span_width := scast (number token) \<rparr>) fmt_name
            (drop (read_length token) chptr)
        else if token_type token = CPROGRESS_TOKEN_LITERAL_CHAR then
          create_directive cp displaychunk (ch token) (drop (read_length token) chptr)
        else Inl CPROGRESS_ERROR_INVAL
      else Inr (cp, displaychunk, fmt_name, chptr))"
  by pat_completeness auto

lemma peektoken_loop_read_length:
  "read_length token \<le> read_length (peektoken_loop token cs)"
proof (induction cs arbitrary: token)
  case Nil
  then show ?case by simp
next
  case (Cons c cs)
  have step: "read_length token \<le> read_length (peektoken_loop (token'\<lparr> read_length := Suc (read_length token) \<rparr>) cs)"
    for token'
    using Cons.IH [of "token'\<lparr> read_length := Suc (read_length token) \<rparr>"] by simp
  show ?case
    using step [of "token\<lparr> token_type := CPROGRESS_TOKEN_NUMBER,
                          number := number token * 10 + (of_nat (of_char c) - 48) \<rparr>"]
          step [of "token\<lparr> number := number token * 10 + (of_nat (of_char c) - 48) \<rparr>"]
    by (auto simp: Let_def split: cprogress_token_type_t.splits)
qed

lemma peektoken_read_length_pos:
  assumes "cs \<noteq> []" "token_type (cprogress_peektoken cs) \<noteq> CPROGRESS_TOKEN_UNKNOWN"
  shows "0 < read_length (cprogress_peektoken cs)"
proof -
  obtain c cs' where cs: "cs = c # cs'" using assms(1) by (cases cs) auto
  show ?thesis
  proof (cases "cprogress_findchartokentype c")
    case CPROGRESS_TOKEN_NUMBER
    let ?t = "\<lparr> token_type = CPROGRESS_TOKEN_NUMBER, number = of_nat (of_char c) - 48, ch = CHR 0x00,
                read_length = Suc 0 \<rparr>"
    have "read_length ?t \<le> read_length (peektoken_loop ?t cs')"
      by (rule peektoken_loop_read_length)
    then show ?thesis using CPROGRESS_TOKEN_NUMBER
      by (simp add: cs cprogress_peektoken_def)
  qed (use assms(2) in \<open>simp_all add: cs cprogress_peektoken_def\<close>)
qed

termination create_directive
proof (relation "measure (\<lambda>(cp, displaychunk, fmt_name, chptr). length chptr)")
qed (use peektoken_read_length_pos in \<open>auto simp: Let_def intro!: diff_less\<close>)

declare create_directive.simps [simp del]

lemma create_directive_length:
  "create_directive cp displaychunk fmt_name chptr = Inr (cp', displaychunk', fmt_name', rest)
   \<Longrightarrow> length rest \<le> length chptr"
proof (induction cp displaychunk fmt_name chptr rule: create_directive.induct)
  case (1 cp displaychunk fmt_name chptr)
  show ?case
  proof (cases "chptr \<noteq> [] \<and> fmt_name = CHR 0x00")
    case False
    with "1.prems" show ?thesis by (subst (asm) create_directive.simps) auto
  next
    case True
    from "1.prems" "1.IH" True show ?thesis
      by (subst (asm) create_directive.simps)
         (auto simp: Let_def split: if_splits intro: order_trans [OF _ diff_le_self])
  qed
qed

text \<open>
  \<open>literal\<close> and \<open>literal_length\<close> of the source delimit the pending literal run:
  \<open>literal\<close> is the rest of the format from where the run begins (\<open>None\<close>: \<open>NULL\<close>).
  \<open>create_saveliteral\<close> is the block that copies the run into the arena and pushes its
  chunk; the source has it twice (before a directive, and for the trailing run).
\<close>

definition create_saveliteral :: "cprogress_t \<Rightarrow> string \<Rightarrow> size_t \<Rightarrow> cprogress_error_t + cprogress_t" where
  "create_saveliteral cp str len =
     (case cprogress_stralloc_alloc (stralloc cp) str len of
        (lit, sa) \<Rightarrow>
          (case cprogress_pushchunk (cp\<lparr> stralloc := sa \<rparr>) (literal_displaychunk lit len) of
             (True, _) \<Rightarrow> Inl CPROGRESS_ERROR_BUFFUL
           | (False, cp') \<Rightarrow> Inr cp'))"

text \<open>
  The \<open>switch (fmt_name)\<close>. On entry the pointer rests on the last character the
  directive loop consumed and \<open>rest\<close> follows it, so \<open>peeked_next_char\<close> is the head of
  \<open>rest\<close> (NUL at the end of the string). The result carries the chunk, the character
  the pointer rests on afterwards (the next \<open>last_ch\<close>) and what follows it.
\<close>

definition create_kind ::
  "cprogress_displaychunk_t \<Rightarrow> char \<Rightarrow> string \<Rightarrow> cprogress_error_t + (cprogress_displaychunk_t \<times> char \<times> string)" where
  "create_kind displaychunk fmt_name rest =
     (let peeked_next_char = (case rest of [] \<Rightarrow> CHR 0x00 | x # _ \<Rightarrow> x) in
      if fmt_name = CHR ''t'' then
        Inr (displaychunk\<lparr> chunk_type := CPROGRESS_DISPLAYCHUNK_TITLE \<rparr>, fmt_name, rest)
      else if fmt_name = CHR ''b'' then
        (if peeked_next_char \<noteq> CHR 0x00 then
           Inr (displaychunk\<lparr> chunk_type := CPROGRESS_DISPLAYCHUNK_BAR, fill_char := peeked_next_char \<rparr>,
                peeked_next_char, tl rest)
         else Inl CPROGRESS_ERROR_INVAL)
      else if fmt_name = CHR ''p'' then
        Inr (displaychunk\<lparr> chunk_type := CPROGRESS_DISPLAYCHUNK_PERCENTAGE \<rparr>, fmt_name, rest)
      else Inl CPROGRESS_ERROR_INVAL)"

lemma create_kind_length:
  "create_kind displaychunk fmt_name rest = Inr (displaychunk', last_ch, rest') \<Longrightarrow> length rest' \<le> length rest"
  by (auto simp: create_kind_def Let_def split: if_splits)

text \<open>
  One directive, from just after its \<open>$\<close>: the directive loop, the two checks that
  follow it, the \<open>switch\<close> and the push. The chunk's type is still
  \<open>CPROGRESS_DISPLAYCHUNK_UNKNOWN\<close> when the second check reads it: the \<open>switch\<close> below
  is what sets it.
\<close>

definition create_format ::
  "cprogress_t \<Rightarrow> string \<Rightarrow> cprogress_error_t + (cprogress_t \<times> char \<times> string)" where
  "create_format cp chptr =
     (case create_directive cp (zero_displaychunk\<lparr> span_width := CPROGRESS_UNDEF \<rparr>) (CHR 0x00) chptr of
        Inl e \<Rightarrow> Inl e
      | Inr (cp, displaychunk, fmt_name, rest) \<Rightarrow>
          if span_width displaychunk \<noteq> CPROGRESS_UNDEF \<and> is_autospan displaychunk
          then Inl CPROGRESS_ERROR_INVAL
          else if chunk_type displaychunk = CPROGRESS_DISPLAYCHUNK_BAR \<and>
                  span_width displaychunk = CPROGRESS_UNDEF \<and> \<not> is_autospan displaychunk
          then Inl CPROGRESS_ERROR_INVAL
          else
            (case create_kind displaychunk fmt_name rest of
               Inl e \<Rightarrow> Inl e
             | Inr (displaychunk, last_ch, rest) \<Rightarrow>
                 (case cprogress_pushchunk cp displaychunk of
                    (True, _) \<Rightarrow> Inl CPROGRESS_ERROR_BUFFUL
                  | (False, cp) \<Rightarrow> Inr (cp, last_ch, rest))))"

lemma create_format_length:
  "create_format cp chptr = Inr (cp', last_ch, rest) \<Longrightarrow> length rest \<le> length chptr"
proof -
  assume a: "create_format cp chptr = Inr (cp', last_ch, rest)"
  then obtain cp1 dc fmt_name rest1 where
    d: "create_directive cp (zero_displaychunk\<lparr> span_width := CPROGRESS_UNDEF \<rparr>) (CHR 0x00) chptr
        = Inr (cp1, dc, fmt_name, rest1)"
    by (auto simp: create_format_def split: sum.splits)
  from a d obtain dc' where k: "create_kind dc fmt_name rest1 = Inr (dc', last_ch, rest)"
    by (auto simp: create_format_def split: sum.splits prod.splits if_splits bool.splits)
  from create_directive_length [OF d] create_kind_length [OF k] show ?thesis by simp
qed

text \<open>
  "Save previous literal if present": the block that opens the directive branch of the
  outer loop. A saved run leaves \<open>literal\<close> and \<open>literal_length\<close> reset.
\<close>

definition create_flush ::
  "cprogress_t \<Rightarrow> string option \<Rightarrow> size_t \<Rightarrow> cprogress_error_t + (cprogress_t \<times> string option \<times> size_t)" where
  "create_flush cp lit len =
     (case lit of
        Some str \<Rightarrow>
          if len \<noteq> 0 then map_sum id (\<lambda>cp. (cp, None, 0)) (create_saveliteral cp str len)
          else Inr (cp, lit, len)
      | None \<Rightarrow> Inr (cp, lit, len))"

text \<open>
  The outer loop \<open>for (chptr = fmt; *chptr; ++chptr)\<close>; the last argument is the rest
  of the format from \<open>chptr\<close> on.
\<close>

function create_scan ::
  "cprogress_t \<Rightarrow> string option \<Rightarrow> size_t \<Rightarrow> char \<Rightarrow> string \<Rightarrow>
   cprogress_error_t + (cprogress_t \<times> string option \<times> size_t)" where
  "create_scan cp lit len last_ch [] = Inr (cp, lit, len)"
| "create_scan cp lit len last_ch (c # cs) =
     (if cprogress_isfmtbegin c \<and> \<not> cprogress_isfmtbegin last_ch then
        (case create_flush cp lit len of
           Inl e \<Rightarrow> Inl e
         | Inr (cp, lit, len) \<Rightarrow>
             (case create_format cp cs of
                Inl e \<Rightarrow> Inl e
              | Inr (cp, last_ch, rest) \<Rightarrow> create_scan cp lit len last_ch rest))
      else create_scan cp (if lit = None then Some (c # cs) else lit) (len + 1) c cs)"
  by pat_completeness auto
termination
proof (relation "measure (\<lambda>(cp, lit, len, last_ch, chptr). length chptr)")
qed (auto dest!: create_format_length)

declare create_scan.simps(2) [simp del]

text \<open>
  \<open>_cprogress_create_returnerror(e)\<close>: the session is destroyed and a zeroed struct
  carrying the error is returned (its arrays are \<open>NULL\<close>: empty here).
\<close>

definition create_returnerror :: "cprogress_error_t \<Rightarrow> cprogress_t" where
  "create_returnerror e =
     \<lparr> error = e, has_autospan_element = False, displaychunks_length = 0, displaychunks = [],
       stralloc = \<lparr> buffer = None, alloc_length = 0, alloc_size = 0 \<rparr>,
       session_running = False, last_alive_thread_count = 0, threadinfos_length = 0,
       threadinfos = [], subscribers = (\<lambda>_. False), emitted = [] \<rparr>"

definition new_threadinfo :: "bool \<Rightarrow> int \<Rightarrow> cprogress_threadinfo_t" where
  "new_threadinfo valid i =
     \<lparr> is_valid = valid, thread_index = i, is_running = False, title = None, percentage = 0,
       is_just_stopped = False \<rparr>"

text \<open>
  \<open>cprogress_create(fmt, thread_count)\<close>. \<open>block\<close> is the outcome of the arena's malloc
  (see \<open>cprogress_stralloc_create\<close>); the other two allocations are taken to succeed.
  \<open>thread_count\<close> is the \<open>int\<close> argument, which the header requires to be positive.
\<close>

definition cprogress_create :: "(nat \<Rightarrow> char) option \<Rightarrow> string \<Rightarrow> nat \<Rightarrow> cprogress_t" where
  "cprogress_create block fmt thread_count =
     (let cp = \<lparr> error = CPROGRESS_ERROR_OK, has_autospan_element = False,
                 displaychunks_length = 0, displaychunks = [],
                 stralloc = cprogress_stralloc_create block (strlen fmt),
                 session_running = True, last_alive_thread_count = 0,
                 threadinfos_length = of_nat thread_count,
                 threadinfos = map (\<lambda>i. new_threadinfo True (int i)) [0 ..< thread_count]
                               @ [new_threadinfo False 0],
                 subscribers = (\<lambda>_. False), emitted = [] \<rparr>
      in if buffer (stralloc cp) = None then create_returnerror CPROGRESS_ERROR_INTERNAL
         else
           (case create_scan cp None 0 (CHR 0x00) (c_str fmt) of
              Inl e \<Rightarrow> create_returnerror e
            | Inr (cp, lit, len) \<Rightarrow>
                (case (if len \<noteq> 0 then create_saveliteral cp (case lit of Some str \<Rightarrow> str | None \<Rightarrow> []) len
                       else Inr cp) of
                   Inl e \<Rightarrow> create_returnerror e
                 | Inr cp \<Rightarrow>
                     (case cprogress_pushchunk cp zero_displaychunk of
                        (True, _) \<Rightarrow> create_returnerror CPROGRESS_ERROR_BUFFUL
                      | (False, cp) \<Rightarrow> cp))))"

section \<open>Floating point and printf\<close>

text \<open>
  The one computation the source does in floating point is
  \<open>buf_len * (percentage / 100.0)\<close>, in \<open>double\<close>. \<open>double_round\<close> rounds a rational to
  the nearest number with a 53-bit significand, ties to even, which is what each
  IEEE 754 operation does to its exact result. The exponent is unbounded here: overflow
  and subnormal numbers are out of reach of a percentage times a length.
\<close>

function bit_length :: "int \<Rightarrow> int" where
  "bit_length n = (if n \<le> 0 then 0 else 1 + bit_length (n div 2))"
  by pat_completeness auto
termination
  by (relation "measure nat") auto

declare bit_length.simps [simp del]

definition pow2 :: "int \<Rightarrow> rat" where
  "pow2 e = (if 0 \<le> e then 2 ^ nat e else 1 / 2 ^ nat (- e))"

text \<open>For \<open>x > 0\<close>, the \<open>e\<close> with \<open>2 ^ e \<le> x < 2 ^ (e + 1)\<close>.\<close>

definition binary_exponent :: "rat \<Rightarrow> int" where
  "binary_exponent x =
     (let e = bit_length (fst (quotient_of x)) - bit_length (snd (quotient_of x))
      in if pow2 e \<le> x then e else e - 1)"

definition round_half_even :: "rat \<Rightarrow> int" where
  "round_half_even x =
     (let f = \<lfloor>x\<rfloor>; r = x - of_int f in
      if r < 1 / 2 then f else if 1 / 2 < r then f + 1 else if even f then f else f + 1)"

definition double_round :: "rat \<Rightarrow> rat" where
  "double_round x =
     (if x = 0 then 0
      else let ulp = pow2 (binary_exponent \<bar>x\<bar> - 52) in of_int (round_half_even (x / ulp)) * ulp)"

text \<open>The conversion \<open>(int) x\<close> of a double: towards zero. Out of the range of \<open>int\<close> C
  leaves it undefined; the value is not wrapped here.\<close>

definition double_to_int :: "rat \<Rightarrow> int" where
  "double_to_int x = (if 0 \<le> x then \<lfloor>x\<rfloor> else - \<lfloor>- x\<rfloor>)"

text \<open>
  \<open>printf("%.2f")\<close> of a finite value: the value rounded to hundredths (ties to even on
  the exact value, as glibc does), sign, integer digits, point, two digits. And
  \<open>snprintf(buf, size, "%.2f", x)\<close>: at most \<open>size - 1\<close> characters of it are stored
  before the terminating NUL.
\<close>

definition digit_char :: "int \<Rightarrow> char" where
  "digit_char d = char_of (48 + d)"

function decimal :: "int \<Rightarrow> string" where
  "decimal n = (if n < 10 then [digit_char n] else decimal (n div 10) @ [digit_char (n mod 10)])"
  by pat_completeness auto
termination
  by (relation "measure nat") auto

declare decimal.simps [simp del]

definition printf_2f :: "rat \<Rightarrow> string" where
  "printf_2f x =
     (let n = round_half_even (\<bar>x\<bar> * 100) in
      (if x < 0 then [CHR ''-''] else []) @ decimal (n div 100) @ [CHR ''.''] @
      [digit_char (n mod 100 div 10), digit_char (n mod 10)])"

definition snprintf_2f :: "nat \<Rightarrow> rat \<Rightarrow> string" where
  "snprintf_2f n x = take (n - 1) (printf_2f x)"

text \<open>The macro \<open>cprogress_sprintpercentage(buf, buf_len, percentage)\<close>: the string left
  in the (zeroed) buffer.\<close>

definition cprogress_sprintpercentage :: "nat \<Rightarrow> rat \<Rightarrow> string" where
  "cprogress_sprintpercentage buf_len pct = snprintf_2f buf_len pct"


section \<open>Writing a line\<close>

text \<open>
  A function that writes into \<open>buf\<close> returns the stores it makes, in order: the offset
  from \<open>buf\<close> and the character stored there. Nothing bounds an offset by the capacity
  of the buffer unless the source does.
\<close>

type_synonym stores = "(nat \<times> char) list"

definition memcpy :: "nat \<Rightarrow> string \<Rightarrow> nat \<Rightarrow> stores" where
  "memcpy dest src n = zip [dest ..< dest + n] (take n src)"

definition shift_stores :: "nat \<Rightarrow> stores \<Rightarrow> stores" where
  "shift_stores off st = map (\<lambda>(i, c). (off + i, c)) st"

text \<open>\<open>cprogress_charlen\<close> and \<open>cprogress_measurechar\<close> on the rest of a C string (empty at
  its NUL).\<close>

fun cprogress_charlen :: "string \<Rightarrow> size_t" where
  "cprogress_charlen [] = 0"
| "cprogress_charlen (c # cs) = 1"

definition cprogress_measurechar :: "string \<Rightarrow> size_t" where
  "cprogress_measurechar buf = (let len = cprogress_charlen buf in if len \<le> 1 then len else 2)"

text \<open>The loop \<open>while (*str)\<close> of \<open>cprogress_measuredisplaychunk\<close>: it advances \<open>str\<close>
  first and measures the character it then points at.\<close>

fun measure_loop :: "string \<Rightarrow> size_t \<Rightarrow> size_t" where
  "measure_loop [] width = width"
| "measure_loop (c # cs) width =
     (let str = drop (unat (cprogress_charlen (c # cs))) (c # cs)
      in measure_loop str (width + cprogress_measurechar str))"

definition cprogress_measuredisplaychunk ::
  "cprogress_displaychunk_t \<Rightarrow> string option \<Rightarrow> size_t \<Rightarrow> size_t" where
  "cprogress_measuredisplaychunk displaychunk str autospan_width =
     (if span_width displaychunk \<noteq> CPROGRESS_UNDEF then span_width displaychunk
      else if chunk_type displaychunk = CPROGRESS_DISPLAYCHUNK_LITERAL then literal_length displaychunk
      else case str of
             Some s \<Rightarrow> measure_loop (c_str s) 0
           | None \<Rightarrow> autospan_width)"

text \<open>
  \<open>cprogress_snprintw\<close>. The \<open>do ... while (*ptr)\<close> loop, entered at the top of its body
  with the stores made so far, \<open>written_length\<close> and \<open>display_width\<close>; \<open>ptr\<close> is the rest
  of the source string.
\<close>

function snprintw_copy ::
  "size_t \<Rightarrow> size_t \<Rightarrow> string \<Rightarrow> stores \<Rightarrow> size_t \<Rightarrow> size_t \<Rightarrow> stores \<times> size_t \<times> size_t" where
  "snprintw_copy buf_len alloc_width ptr st written_length dwidth =
     (let char_length = cprogress_charlen ptr;
          after_length = written_length + char_length
      in if after_length > buf_len then (st, written_length, dwidth)
         else
           let after_width = dwidth + cprogress_measurechar ptr
           in if alloc_width \<noteq> CPROGRESS_UNDEF \<and> after_width > alloc_width
              then (st, written_length, dwidth)
              else
                let st' = st @ memcpy (unat written_length) ptr (unat char_length);
                    ptr' = drop (unat char_length) ptr
                in if ptr' \<noteq> [] then snprintw_copy buf_len alloc_width ptr' st' after_length after_width
                   else (st', after_length, after_width))"
  by pat_completeness auto
termination
proof (relation "measure (\<lambda>(buf_len, alloc_width, ptr, st, written_length, dwidth). length ptr)")
  show "wf (measure (\<lambda>(buf_len, alloc_width, ptr, st, written_length, dwidth). length ptr))"
    by simp
next
  fix buf_len alloc_width :: size_t and ptr :: string and st :: stores
    and written_length dwidth char_length after_length after_width :: size_t
    and st' :: stores and ptr' :: string
  assume "char_length = cprogress_charlen ptr" "ptr' = drop (unat char_length) ptr" "ptr' \<noteq> []"
  then show "((buf_len, alloc_width, ptr', st', after_length, after_width),
              (buf_len, alloc_width, ptr, st, written_length, dwidth))
             \<in> measure (\<lambda>(buf_len, alloc_width, ptr, st, written_length, dwidth). length ptr)"
    by (cases ptr) auto
qed

declare snprintw_copy.simps [simp del]

text \<open>The padding loop of \<open>cprogress_snprintw\<close>; it stores at \<open>buf[display_width]\<close>.\<close>

lemma pad_step: "(w::size_t) < b \<Longrightarrow> unat (b - (w + 1)) < unat (b - w)"
  by unat_arith

function snprintw_pad :: "size_t \<Rightarrow> size_t \<Rightarrow> stores \<Rightarrow> size_t \<Rightarrow> size_t \<Rightarrow> stores \<times> size_t" where
  "snprintw_pad buf_len alloc_width st written_length dwidth =
     (if written_length < buf_len \<and> dwidth < alloc_width then
        snprintw_pad buf_len alloc_width (st @ [(unat dwidth, CHR '' '')]) (written_length + 1) (dwidth + 1)
      else (st, written_length))"
  by pat_completeness auto
termination
proof (relation "measure (\<lambda>(buf_len, alloc_width, st, written_length, dwidth). unat (buf_len - written_length))")
  show "wf (measure (\<lambda>(buf_len, alloc_width, st, written_length, dwidth). unat (buf_len - written_length)))"
    by simp
next
  fix buf_len alloc_width :: size_t and st :: stores and written_length dwidth :: size_t
  assume a: "written_length < buf_len \<and> dwidth < alloc_width"
  then have "unat (buf_len - (written_length + 1)) < unat (buf_len - written_length)"
    by (simp add: pad_step)
  then show "((buf_len, alloc_width, st @ [(unat dwidth, CHR '' '')], written_length + 1, dwidth + 1),
              (buf_len, alloc_width, st, written_length, dwidth))
             \<in> measure (\<lambda>(buf_len, alloc_width, st, written_length, dwidth). unat (buf_len - written_length))"
    by simp
qed

declare snprintw_pad.simps [simp del]

definition cprogress_snprintw :: "size_t \<Rightarrow> string \<Rightarrow> size_t \<Rightarrow> stores \<times> size_t" where
  "cprogress_snprintw buf_len lit alloc_width =
     (case snprintw_copy buf_len alloc_width lit [] 0 0 of
        (st, written_length, dwidth) \<Rightarrow>
          if alloc_width \<noteq> CPROGRESS_UNDEF \<and> dwidth < alloc_width
          then snprintw_pad buf_len alloc_width st written_length dwidth
          else (st, written_length))"

text \<open>The loop of \<open>cprogress_writeliteral\<close> for a \<open>NULL\<close> literal; it stores at
  \<open>buf[written_length]\<close>.\<close>

function writeliteral_pad :: "size_t \<Rightarrow> size_t \<Rightarrow> stores \<Rightarrow> size_t \<Rightarrow> size_t \<Rightarrow> stores \<times> size_t" where
  "writeliteral_pad buf_len alloc_width st written_length dwidth =
     (if written_length < buf_len \<and> dwidth < alloc_width then
        writeliteral_pad buf_len alloc_width (st @ [(unat written_length, CHR '' '')]) (written_length + 1) (dwidth + 1)
      else (st, written_length))"
  by pat_completeness auto
termination
proof (relation "measure (\<lambda>(buf_len, alloc_width, st, written_length, dwidth). unat (buf_len - written_length))")
  show "wf (measure (\<lambda>(buf_len, alloc_width, st, written_length, dwidth). unat (buf_len - written_length)))"
    by simp
next
  fix buf_len alloc_width :: size_t and st :: stores and written_length dwidth :: size_t
  assume a: "written_length < buf_len \<and> dwidth < alloc_width"
  then have "unat (buf_len - (written_length + 1)) < unat (buf_len - written_length)"
    by (simp add: pad_step)
  then show "((buf_len, alloc_width, st @ [(unat written_length, CHR '' '')], written_length + 1, dwidth + 1),
              (buf_len, alloc_width, st, written_length, dwidth))
             \<in> measure (\<lambda>(buf_len, alloc_width, st, written_length, dwidth). unat (buf_len - written_length))"
    by simp
qed

declare writeliteral_pad.simps [simp del]

text \<open>\<open>cprogress_writeliteral(buf, buf_len, literal, alloc_width)\<close>: the stores and the
  returned length. The C string of a non-null \<open>literal\<close> ends at its first NUL.\<close>

definition cprogress_writeliteral :: "size_t \<Rightarrow> string option \<Rightarrow> size_t \<Rightarrow> stores \<times> size_t" where
  "cprogress_writeliteral buf_len lit alloc_width =
     (if alloc_width = CPROGRESS_UNDEF \<and> lit = None then ([], 0)
      else case lit of
             None \<Rightarrow> writeliteral_pad buf_len alloc_width [] 0 0
           | Some s \<Rightarrow> cprogress_snprintw buf_len (c_str s) alloc_width)"

definition cprogress_writepercentage :: "size_t \<Rightarrow> rat \<Rightarrow> size_t \<Rightarrow> stores \<times> size_t" where
  "cprogress_writepercentage buf_len pct alloc_width =
     cprogress_writeliteral buf_len (Some (cprogress_sprintpercentage 6 pct)) alloc_width"

text \<open>
  \<open>cprogress_writeprogressbar(buf, buf_len, fill_char, percentage)\<close>. \<open>bar_fill\<close> is the
  loop \<open>while (curr < limit) buf[curr++] = c\<close>; \<open>curr\<close> is an \<open>int\<close> that starts at 0 and
  only grows (beyond \<open>INT_MAX\<close> C leaves it undefined; it is not wrapped here). The
  first loop runs to \<open>left_length\<close>, the second to \<open>buf_len\<close>, and \<open>buf_len\<close> is returned
  whatever was stored.
\<close>

function bar_fill :: "nat \<Rightarrow> nat \<Rightarrow> char \<Rightarrow> stores" where
  "bar_fill cur limit c = (if cur < limit then (cur, c) # bar_fill (Suc cur) limit c else [])"
  by pat_completeness auto
termination
  by (relation "measure (\<lambda>(cur, limit, c). limit - cur)") auto

declare bar_fill.simps [simp del]

definition bar_left_length :: "size_t \<Rightarrow> rat \<Rightarrow> int" where
  "bar_left_length buf_len pct =
     double_to_int (double_round (double_round (of_nat (unat buf_len)) * double_round (pct / 100)))"

definition cprogress_writeprogressbar :: "size_t \<Rightarrow> char \<Rightarrow> rat \<Rightarrow> stores \<times> size_t" where
  "cprogress_writeprogressbar buf_len fill pct =
     (let left_length = bar_left_length buf_len pct;
          st1 = bar_fill 0 (nat left_length) fill;
          cur = nat left_length;
          st2 = bar_fill cur (unat buf_len) (CHR '' '')
      in (st1 @ st2, buf_len))"

text \<open>
  \<open>displaychunk->literal\<close> read as a C string: the bytes of the arena from the chunk's
  offset up to the first NUL.
\<close>

definition literal_string :: "cprogress_t \<Rightarrow> cprogress_displaychunk_t \<Rightarrow> string option" where
  "literal_string cp displaychunk =
     (case literal displaychunk of
        None \<Rightarrow> None
      | Some off \<Rightarrow> Some (c_str (drop off (case buffer (stralloc cp) of Some b \<Rightarrow> b | None \<Rightarrow> []))))"

text \<open>
  The two passes of \<open>cprogress_writeline\<close>. \<open>cprogress_displaychunk_foreach\<close> walks the
  chunk array up to the first entry of type \<open>CPROGRESS_DISPLAYCHUNK_UNKNOWN\<close>. The
  measure pass stores each width it computes in the chunk and sums them.
\<close>

fun writeline_measure ::
  "cprogress_t \<Rightarrow> string option \<Rightarrow> string \<Rightarrow> cprogress_displaychunk_t list \<Rightarrow> size_t \<Rightarrow>
   cprogress_displaychunk_t list \<times> size_t" where
  "writeline_measure cp ttl percentage_string [] taken_display_width = ([], taken_display_width)"
| "writeline_measure cp ttl percentage_string (displaychunk # rest) taken_display_width =
     (if chunk_type displaychunk = CPROGRESS_DISPLAYCHUNK_UNKNOWN
      then (displaychunk # rest, taken_display_width)
      else if \<not> is_autospan displaychunk then
        let dwidth =
              (case chunk_type displaychunk of
                 CPROGRESS_DISPLAYCHUNK_LITERAL \<Rightarrow>
                   cprogress_measuredisplaychunk displaychunk (literal_string cp displaychunk) CPROGRESS_UNDEF
               | CPROGRESS_DISPLAYCHUNK_TITLE \<Rightarrow>
                   cprogress_measuredisplaychunk displaychunk ttl CPROGRESS_UNDEF
               | CPROGRESS_DISPLAYCHUNK_BAR \<Rightarrow>
                   cprogress_measuredisplaychunk displaychunk None CPROGRESS_UNDEF
               | CPROGRESS_DISPLAYCHUNK_PERCENTAGE \<Rightarrow>
                   cprogress_measuredisplaychunk displaychunk (Some percentage_string) CPROGRESS_UNDEF
               | CPROGRESS_DISPLAYCHUNK_UNKNOWN \<Rightarrow> 0)
        in case writeline_measure cp ttl percentage_string rest (taken_display_width + dwidth) of
             (rest', taken) \<Rightarrow> (displaychunk\<lparr> display_width := dwidth \<rparr> # rest', taken)
      else
        case writeline_measure cp ttl percentage_string rest taken_display_width of
          (rest', taken) \<Rightarrow> (displaychunk # rest', taken))"

text \<open>
  The write pass: \<open>ptr\<close> is the offset of the write pointer from \<open>buf\<close>,
  \<open>avail_length\<close> the \<open>size_t\<close> the source keeps beside it. A bar is handed
  \<open>display_width\<close> as its \<open>buf_len\<close>; the other chunks are handed \<open>avail_length\<close>.
\<close>

fun writeline_render ::
  "cprogress_t \<Rightarrow> string option \<Rightarrow> string \<Rightarrow> rat \<Rightarrow> size_t \<Rightarrow> cprogress_displaychunk_t list \<Rightarrow>
   nat \<Rightarrow> size_t \<Rightarrow> stores" where
  "writeline_render cp ttl percentage_string pct autospan_width [] ptr avail_length = []"
| "writeline_render cp ttl percentage_string pct autospan_width (displaychunk # rest) ptr avail_length =
     (if chunk_type displaychunk = CPROGRESS_DISPLAYCHUNK_UNKNOWN then []
      else if avail_length \<le> 0 then []
      else
        let dwidth = (if is_autospan displaychunk then autospan_width else display_width displaychunk)
        in case (case chunk_type displaychunk of
                   CPROGRESS_DISPLAYCHUNK_LITERAL \<Rightarrow>
                     cprogress_writeliteral avail_length (literal_string cp displaychunk) dwidth
                 | CPROGRESS_DISPLAYCHUNK_TITLE \<Rightarrow>
                     cprogress_writeliteral avail_length ttl dwidth
                 | CPROGRESS_DISPLAYCHUNK_BAR \<Rightarrow>
                     cprogress_writeprogressbar dwidth (fill_char displaychunk) pct
                 | CPROGRESS_DISPLAYCHUNK_PERCENTAGE \<Rightarrow>
                     cprogress_writeliteral avail_length (Some percentage_string) dwidth
                 | CPROGRESS_DISPLAYCHUNK_UNKNOWN \<Rightarrow> ([], 0)) of
             (st, print_length) \<Rightarrow>
               shift_stores ptr st @
               writeline_render cp ttl percentage_string pct autospan_width rest
                 (ptr + unat print_length) (avail_length - print_length))"

text \<open>
  \<open>cprogress_writeline(cprogress, buf, buf_len, console_width, title, percentage)\<close> for a
  non-null \<open>buf\<close>: the session with its refreshed chunk widths, and the stores made
  into \<open>buf\<close>.
\<close>

definition cprogress_writeline ::
  "cprogress_t \<Rightarrow> size_t \<Rightarrow> size_t \<Rightarrow> string option \<Rightarrow> rat \<Rightarrow> cprogress_t \<times> stores" where
  "cprogress_writeline cp buf_len console_width ttl pct =
     (if console_width \<le> 1 then (cp, [])
      else
        let percentage_string = cprogress_sprintpercentage 6 pct in
        case writeline_measure cp ttl percentage_string (displaychunks cp) 0 of
          (chunks, taken_display_width) \<Rightarrow>
            let autospan_width = (if console_width > taken_display_width
                                  then console_width - taken_display_width else 0);
                cp' = cp\<lparr> displaychunks := chunks \<rparr>
            in (cp', writeline_render cp' ttl percentage_string pct autospan_width chunks 0 buf_len))"

section \<open>Tasks\<close>

definition cprogress_threadinfo_start :: "cprogress_threadinfo_t \<Rightarrow> cprogress_threadinfo_t" where
  "cprogress_threadinfo_start threadinfo =
     threadinfo\<lparr> title := None, percentage := 0, is_running := True \<rparr>"

definition cprogress_threadinfo_abort :: "cprogress_threadinfo_t \<Rightarrow> cprogress_threadinfo_t" where
  "cprogress_threadinfo_abort threadinfo =
     threadinfo\<lparr> is_running := False, is_just_stopped := True \<rparr>"

text \<open>\<open>cprogress_strdup\<close>: a copy of the C string, \<open>NULL\<close> for \<open>NULL\<close>.\<close>

definition cprogress_strdup :: "string option \<Rightarrow> string option" where
  "cprogress_strdup str = map_option c_str str"

definition cprogress_threadinfo_updatetitle ::
  "cprogress_threadinfo_t \<Rightarrow> string option \<Rightarrow> cprogress_threadinfo_t" where
  "cprogress_threadinfo_updatetitle threadinfo ttl =
     (if \<not> is_running threadinfo then threadinfo
      else threadinfo\<lparr> title := cprogress_strdup ttl \<rparr>)"

definition cprogress_threadinfo_updatepercentage ::
  "cprogress_threadinfo_t \<Rightarrow> rat \<Rightarrow> cprogress_threadinfo_t" where
  "cprogress_threadinfo_updatepercentage threadinfo pct =
     (if \<not> is_running threadinfo then threadinfo
      else
        let (pct, threadinfo) =
              (if pct \<ge> 100 then (100, cprogress_threadinfo_abort threadinfo) else (pct, threadinfo));
            pct = (if pct < 0 then 0 else pct)
        in threadinfo\<lparr> percentage := pct \<rparr>)"

text \<open>
  The functions that take a session and a \<open>thread_index\<close>: the guard of the source, then
  the operation on \<open>threadinfos[thread_index]\<close>.
\<close>

definition on_thread ::
  "(cprogress_threadinfo_t \<Rightarrow> cprogress_threadinfo_t) \<Rightarrow> cprogress_t \<Rightarrow> int \<Rightarrow> cprogress_t" where
  "on_thread f cp i =
     (if i < 0 \<or> (word_of_int i :: size_t) \<ge> threadinfos_length cp then cp
      else cp\<lparr> threadinfos := (threadinfos cp)[nat i := f (threadinfos cp ! nat i)] \<rparr>)"



definition cprogress_updatethread_title :: "cprogress_t \<Rightarrow> int \<Rightarrow> string option \<Rightarrow> cprogress_t" where
  "cprogress_updatethread_title cp i ttl = on_thread (\<lambda>t. cprogress_threadinfo_updatetitle t ttl) cp i"

definition cprogress_updatethread_percentage :: "cprogress_t \<Rightarrow> int \<Rightarrow> rat \<Rightarrow> cprogress_t" where
  "cprogress_updatethread_percentage cp i pct =
     on_thread (\<lambda>t. cprogress_threadinfo_updatepercentage t pct) cp i"

text \<open>\<open>cprogress_threadinfo_foreach\<close> walks the task array up to the first invalid entry.\<close>

fun startall_loop :: "cprogress_threadinfo_t list \<Rightarrow> cprogress_threadinfo_t list" where
  "startall_loop [] = []"
| "startall_loop (threadinfo # rest) =
     (if \<not> is_valid threadinfo then threadinfo # rest
      else cprogress_threadinfo_start threadinfo # startall_loop rest)"

definition cprogress_startallthreads :: "cprogress_t \<Rightarrow> cprogress_t" where
  "cprogress_startallthreads cp = cp\<lparr> threadinfos := startall_loop (threadinfos cp) \<rparr>"


section \<open>Events\<close>

definition event_index :: "cprogress_event_type_t \<Rightarrow> int" where
  "event_index e =
     (case e of
        CPROGRESS_EVENT_NONE \<Rightarrow> - 1
      | CPROGRESS_EVENT_THREADSTART \<Rightarrow> 0
      | CPROGRESS_EVENT_THREADFINISH \<Rightarrow> 1
      | CPROGRESS_EVENT_FINISH \<Rightarrow> 2
      | CPROGRESS_EVENT_LENGTH \<Rightarrow> 3)"

definition cprogress_subscribeevent :: "cprogress_t \<Rightarrow> cprogress_event_type_t \<Rightarrow> bool \<Rightarrow> cprogress_t" where
  "cprogress_subscribeevent cp e func =
     (if e \<noteq> CPROGRESS_EVENT_NONE \<and> event_index e < event_index CPROGRESS_EVENT_LENGTH
      then cp\<lparr> subscribers := (subscribers cp)(e := func) \<rparr>
      else cp)"

text \<open>
  \<open>cprogress_emitevent\<close>: when the guard holds and the slot of the event holds a
  callback, the callback is called; the call is appended to \<open>emitted\<close>. (For the two
  enum values that are no events the source would read outside the slot array.)
\<close>

definition cprogress_emitevent :: "cprogress_t \<Rightarrow> cprogress_event_type_t \<Rightarrow> int \<Rightarrow> cprogress_t" where
  "cprogress_emitevent cp e i =
     (if e \<noteq> CPROGRESS_EVENT_NONE \<and> event_index e < event_index CPROGRESS_EVENT_LENGTH \<or>
         (i > 0 \<and> (word_of_int i :: size_t) < threadinfos_length cp \<or> i = - 1)
      then (if subscribers cp e then cp\<lparr> emitted := emitted cp @ [(e, i)] \<rparr> else cp)
      else cp)"


section \<open>View controller\<close>

definition cprogress_abort :: "cprogress_t \<Rightarrow> cprogress_t" where
  "cprogress_abort cp = cp\<lparr> session_running := False \<rparr>"

text \<open>The loop of \<open>cprogress_stillrunning\<close> that computes \<open>is_all_finished\<close>.\<close>

fun all_finished_loop :: "cprogress_threadinfo_t list \<Rightarrow> bool" where
  "all_finished_loop [] = True"
| "all_finished_loop (threadinfo # rest) =
     (if \<not> is_valid threadinfo then True
      else if is_running threadinfo \<or> is_just_stopped threadinfo then False
      else all_finished_loop rest)"

text \<open>\<open>cprogress_stillrunning\<close>: the session after the call, and the value returned.\<close>

definition cprogress_stillrunning :: "cprogress_t \<Rightarrow> cprogress_t \<times> bool" where
  "cprogress_stillrunning cp =
     (let is_all_finished = all_finished_loop (threadinfos cp);
          cp = (if is_all_finished then cprogress_abort cp else cp);
          cp = (if \<not> session_running cp then cprogress_emitevent cp CPROGRESS_EVENT_FINISH (- 1) else cp)
      in (cp, session_running cp))"

text \<open>
  \<open>cprogress_render\<close>. What it sends to the terminal is returned as a list of actions;
  \<open>RenderLine t p\<close> is a call \<open>cprogress_renderline(cprogress, t, p)\<close>, whose own effect
  on the session (it refreshes the cached widths of the chunks, see
  \<open>cprogress_writeline\<close>) is not followed here.
\<close>

datatype terminal_action =
    CursorUp int
  | RenderLine "string option" rat
  | NextLine

fun count_alive :: "cprogress_threadinfo_t list \<Rightarrow> int" where
  "count_alive [] = 0"
| "count_alive (threadinfo # rest) =
     (if \<not> is_valid threadinfo then 0
      else (if is_running threadinfo then 1 else 0) + count_alive rest)"

fun render_stopped ::
  "cprogress_t \<Rightarrow> cprogress_threadinfo_t list \<Rightarrow>
   cprogress_t \<times> cprogress_threadinfo_t list \<times> terminal_action list" where
  "render_stopped cp [] = (cp, [], [])"
| "render_stopped cp (threadinfo # rest) =
     (if \<not> is_valid threadinfo then (cp, threadinfo # rest, [])
      else if is_just_stopped threadinfo then
        let threadinfo' = threadinfo\<lparr> is_just_stopped := False \<rparr>;
            cp' = cprogress_emitevent cp CPROGRESS_EVENT_THREADFINISH (thread_index threadinfo)
        in case render_stopped cp' rest of
             (cp'', rest', acts) \<Rightarrow>
               (cp'', threadinfo' # rest',
                RenderLine (title threadinfo) (percentage threadinfo) # NextLine # acts)
      else
        case render_stopped cp rest of
          (cp'', rest', acts) \<Rightarrow> (cp'', threadinfo # rest', acts))"

fun render_running :: "cprogress_threadinfo_t list \<Rightarrow> terminal_action list" where
  "render_running [] = []"
| "render_running (threadinfo # rest) =
     (if \<not> is_valid threadinfo then []
      else (if is_running threadinfo
            then [RenderLine (title threadinfo) (percentage threadinfo), NextLine] else [])
           @ render_running rest)"

definition cprogress_render :: "cprogress_t \<Rightarrow> cprogress_t \<times> terminal_action list" where
  "cprogress_render cp =
     (let alive_thread_count = count_alive (threadinfos cp);
          up = (if last_alive_thread_count cp \<noteq> 0 then [CursorUp (last_alive_thread_count cp)] else [])
      in case render_stopped cp (threadinfos cp) of
           (cp', infos, acts) \<Rightarrow>
             (cp'\<lparr> threadinfos := infos, last_alive_thread_count := alive_thread_count \<rparr>,
              up @ acts @ render_running infos))"

section \<open>The format language, as the specification words it\<close>



section \<open>Sessions used as examples\<close>

text \<open>An arena block that malloc hands out zeroed, and one full of stale bytes.\<close>

definition zeroed_block :: "nat \<Rightarrow> char" where
  "zeroed_block = (\<lambda>_. CHR 0x00)"

definition stale_block :: "nat \<Rightarrow> char" where
  "stale_block = (\<lambda>_. CHR ''?'')"

text \<open>
  The session of the header's example, with one task and callbacks for \<open>ThreadFinish\<close>
  and \<open>Finish\<close>; \<open>demo_done\<close> is that session after its task was started, reached 100
  percent, was polled and was rendered once: the task is neither running nor
  just-stopped, the session's own flag still says running.
  \<open>demo_restarted\<close> is the session after its task was started, aborted and started
  again.
\<close>

definition demo_session :: cprogress_t where
  "demo_session =
     cprogress_subscribeevent
       (cprogress_subscribeevent (cprogress_create (Some zeroed_block) ''$=t [$40b#] $p%'' 1)
          CPROGRESS_EVENT_THREADFINISH True)
       CPROGRESS_EVENT_FINISH True"

definition demo_done :: cprogress_t where
  "demo_done =
     fst (cprogress_render (fst (cprogress_stillrunning
       (cprogress_updatethread_percentage (cprogress_startallthreads demo_session) 0 100))))"




section \<open>Auxiliary notions for the proofs about cprogress_create\<close>



section \<open>Lemmas about tasks and rendering ticks\<close>


lemma emitevent_finish:
  "cprogress_emitevent cp CPROGRESS_EVENT_FINISH i =
     (if subscribers cp CPROGRESS_EVENT_FINISH
      then cp\<lparr> emitted := emitted cp @ [(CPROGRESS_EVENT_FINISH, i)] \<rparr> else cp)"
  by (simp add: cprogress_emitevent_def event_index_def)



text \<open>The loop of \<open>cprogress_stillrunning\<close>, and the measuring loop, in closed form.\<close>

lemma all_finished_loop_eq:
  "all_finished_loop infos =
     list_all (\<lambda>t. \<not> is_running t \<and> \<not> is_just_stopped t) (takeWhile is_valid infos)"
  by (induction infos) auto

lemma measure_loop_eq: "measure_loop s width = width + of_nat (length s - 1)"
proof (induction s arbitrary: width)
  case Nil
  show ?case by simp
next
  case (Cons c cs)
  show ?case
  proof (cases cs)
    case Nil
    then show ?thesis by (simp add: cprogress_measurechar_def)
  next
    case (Cons c' cs')
    then show ?thesis using Cons.IH [of "width + 1"]
      by (simp add: cprogress_measurechar_def)
  qed
qed


section \<open>Lemmas about the compiler\<close>















lemma pushchunk_True: "cprogress_pushchunk cp dc = (True, cp') \<Longrightarrow> cp' = cp"
  by (auto simp: cprogress_pushchunk_def split: if_splits)















lemma create_returnerror_error [simp]: "error (create_returnerror e) = e"
  by (simp add: create_returnerror_def)


section \<open>The claims\<close>

text \<open>
  C1, rendering stays inside the supplied buffer. It does not when the format has a bar:
  compiled from \<open>$40b#\<close> and handed a buffer of capacity 10, \<open>cprogress_writeline\<close>
  stores at the offsets 0 to 39. The write pass passes the bar its display width where
  the other chunk kinds get the remaining capacity.
\<close>

theorem writeline_bar_past_capacity:
  "map fst (snd (cprogress_writeline (cprogress_create (Some g) ''$40b#'' n) 10 70 ttl 31)) = [0 ..< 40]"
  by code_simp

text \<open>
  C2, a bar with neither a width nor the auto-span marker is refused. It is accepted:
  \<open>$b#\<close> compiles without error, to a bar chunk whose width is undefined and that is
  not auto-spanned. The check that should refuse it reads the chunk's type before the
  \<open>switch\<close> has set it.
\<close>

theorem create_accepts_bar_without_width:
  "error (cprogress_create (Some g) ''$b#'' n) = CPROGRESS_ERROR_OK \<and>
   chunk_type (hd (displaychunks (cprogress_create (Some g) ''$b#'' n))) = CPROGRESS_DISPLAYCHUNK_BAR \<and>
   span_width (hd (displaychunks (cprogress_create (Some g) ''$b#'' n))) = CPROGRESS_UNDEF \<and>
   \<not> is_autospan (hd (displaychunks (cprogress_create (Some g) ''$b#'' n)))"
  by code_simp

text \<open>
  C3 as stated, the Finish event is emitted once and later polls emit none, fails:
  the first poll of \<open>demo_done\<close> returns false and calls the Finish callback, and the
  second poll calls it again.
\<close>

theorem stillrunning_finish_twice:
  "session_running demo_done \<and>
   snd (cprogress_stillrunning demo_done) = False \<and>
   emitted (fst (cprogress_stillrunning demo_done)) = emitted demo_done @ [(CPROGRESS_EVENT_FINISH, - 1)] \<and>
   emitted (fst (cprogress_stillrunning (fst (cprogress_stillrunning demo_done)))) =
     emitted demo_done @ [(CPROGRESS_EVENT_FINISH, - 1), (CPROGRESS_EVENT_FINISH, - 1)]"
  by code_simp

text \<open>
  C3 as amended: a call of \<open>cprogress_stillrunning\<close> calls the Finish callback (when one
  is set) exactly when it returns false, that is when the session is not running after
  the call; it returns true exactly when the session was running and some task is
  running or just-stopped. Once it has returned false it returns false on every later
  call, so each later poll calls the Finish callback again.
\<close>

theorem stillrunning_finish_each_poll:
  "emitted (fst (cprogress_stillrunning cp)) =
     emitted cp @ (if \<not> snd (cprogress_stillrunning cp) \<and> subscribers cp CPROGRESS_EVENT_FINISH
                   then [(CPROGRESS_EVENT_FINISH, - 1)] else []) \<and>
   snd (cprogress_stillrunning cp) =
     (session_running cp \<and>
      \<not> list_all (\<lambda>t. \<not> is_running t \<and> \<not> is_just_stopped t) (takeWhile is_valid (threadinfos cp))) \<and>
   session_running (fst (cprogress_stillrunning cp)) = snd (cprogress_stillrunning cp) \<and>
   (\<not> snd (cprogress_stillrunning cp) \<longrightarrow>
      \<not> snd (cprogress_stillrunning (fst (cprogress_stillrunning cp))) \<and>
      emitted (fst (cprogress_stillrunning (fst (cprogress_stillrunning cp)))) =
        emitted (fst (cprogress_stillrunning cp)) @
        (if subscribers cp CPROGRESS_EVENT_FINISH then [(CPROGRESS_EVENT_FINISH, - 1)] else []))"
  by (auto simp: cprogress_stillrunning_def cprogress_abort_def emitevent_finish Let_def
        all_finished_loop_eq [symmetric])

theorem stillrunning_finish_each_poll_witness:
  "\<not> snd (cprogress_stillrunning demo_done) \<and>
   subscribers demo_done CPROGRESS_EVENT_FINISH \<and>
   \<not> snd (cprogress_stillrunning (fst (cprogress_stillrunning demo_done))) \<and>
   emitted (fst (cprogress_stillrunning (fst (cprogress_stillrunning demo_done)))) =
     emitted (fst (cprogress_stillrunning demo_done)) @ [(CPROGRESS_EVENT_FINISH, - 1)]"
proof -
  have h: "\<not> snd (cprogress_stillrunning demo_done)" by code_simp
  have s: "subscribers demo_done CPROGRESS_EVENT_FINISH" by code_simp
  show ?thesis using h s stillrunning_finish_each_poll [of demo_done] by simp
qed






text \<open>
  C6, a title of length n without a fixed width measures n columns, and an unset title
  measures 0. The measuring loop steps past a character before it measures, so it
  counts one less: the title chunk compiled from \<open>$t\<close> measures every title one
  short of its length, \<open>Simple task\<close> (11 characters) as 10, and the line rendered for
  it ends after \<open>Simple tas\<close>. For an unset title the measure is \<open>CPROGRESS_UNDEF\<close>,
  not 0.
\<close>

theorem measure_title_one_short:
  "cprogress_measuredisplaychunk (hd (displaychunks (cprogress_create (Some g) ''$t'' n)))
     (Some ttl) CPROGRESS_UNDEF = of_nat (length (c_str ttl) - 1) \<and>
   cprogress_measuredisplaychunk (hd (displaychunks (cprogress_create (Some g) ''$t'' n)))
     None CPROGRESS_UNDEF = CPROGRESS_UNDEF \<and>
   cprogress_measuredisplaychunk (hd (displaychunks (cprogress_create (Some g) ''$t'' n)))
     (Some ''Simple task'') CPROGRESS_UNDEF = 10 \<and>
   map snd (snd (cprogress_writeline (cprogress_create (Some g) ''$t'' n) 281 70 (Some ''Simple task'') 31))
     = ''Simple tas''"
proof -
  let ?d = "hd (displaychunks (cprogress_create (Some g) ''$t'' n))"
  have w: "span_width ?d = CPROGRESS_UNDEF"
    by code_simp
  have t: "chunk_type ?d = CPROGRESS_DISPLAYCHUNK_TITLE"
    by code_simp
  have m: "cprogress_measuredisplaychunk ?d (Some s) CPROGRESS_UNDEF = of_nat (length (c_str s) - 1)" for s
    by (simp add: cprogress_measuredisplaychunk_def w t measure_loop_eq)
  have u: "cprogress_measuredisplaychunk ?d None CPROGRESS_UNDEF = CPROGRESS_UNDEF"
    by (simp add: cprogress_measuredisplaychunk_def w t)
  have l: "map snd (snd (cprogress_writeline (cprogress_create (Some g) ''$t'' n) 281 70
                           (Some ''Simple task'') 31)) = ''Simple tas''"
    by code_simp
  from m [of ttl] m [of "''Simple task''"] u l show ?thesis
    by (simp add: c_str_def)
qed

text \<open>
  C7, the percentage string has two decimals for every value from 0 to 100. For 100 it
  has one: \<open>snprintf\<close> is given the size 6, which leaves room for five characters, so
  100 is formatted as \<open>100.0\<close>. (31 is formatted as \<open>31.00\<close>.)
\<close>

theorem sprintpercentage_100_truncated:
  "cprogress_sprintpercentage 6 100 = ''100.0'' \<and> cprogress_sprintpercentage 6 31 = ''31.00''"
  by code_simp

text \<open>
  C8, the example line. Compiled from \<open>$=t [$40b#] $p%\<close> and rendered at width 70 with
  the title \<open>Simple task\<close> and 31 percent, the line is 70 characters, stored at the
  offsets 0 to 69; its bar is twelve \<open>#\<close> and 28 spaces, as claimed, but its percentage
  segment is \<open>31.0\<close>, not \<open>31.00\<close>: the measure pass counts the five characters of the
  string as four. The same line results whether the arena block was zeroed or stale.
\<close>

theorem writeline_example_line:
  "snd (cprogress_writeline (cprogress_create (Some zeroed_block) ''$=t [$40b#] $p%'' 1)
          281 70 (Some ''Simple task'') 31)
     = zip [0 ..< 70] ''Simple task           [############                            ] 31.0%'' \<and>
   snd (cprogress_writeline (cprogress_create (Some stale_block) ''$=t [$40b#] $p%'' 1)
          281 70 (Some ''Simple task'') 31)
     = zip [0 ..< 70] ''Simple task           [############                            ] 31.0%''"
  by code_simp

text \<open>
  C9, literal text is emitted verbatim. A format that is literal text only is not: the
  arena is as large as the format is long, the allocation of the run needs one byte
  more and fails, and the chunk is rendered from a \<open>NULL\<close> literal as spaces. Compiled
  from \<open>abc\<close>, the line is three spaces.
\<close>

theorem writeline_literal_only_blank:
  "literal (hd (displaychunks (cprogress_create (Some g) ''abc'' n))) = None \<and>
   map snd (snd (cprogress_writeline (cprogress_create (Some g) ''abc'' n) 281 70 ttl pct)) = ''   ''"
  by code_simp



end
